theory Spec2Isabelle
  imports Complex_Main "HOL-Library.Multiset"
begin

section \<open>The weekly replenishment pipeline of app.py\<close>

text \<open>
  The decision pipeline of \<^verbatim>\<open>app.py\<close> is
  \<^verbatim>\<open>ForecastAgent -> ReplenishmentAgent -> BudgetAgent\<close>, run over the state dictionary
  that \<^verbatim>\<open>DataAgent.collect_state\<close> reads from SQLite. The SQL, the Flask routes and the
  templates are outside this development: the state dictionary is the input.

  Conventions of the embedding:
  \<^item> Python \<^verbatim>\<open>int\<close> is \<^typ>\<open>int\<close>. Python \<^verbatim>\<open>float\<close> is idealised as \<^typ>\<open>real\<close>:
    every arithmetic operation is exact, there is no rounding to 53 bits, no infinity and
    no NaN. Results stated on this embedding are results about exact arithmetic.
  \<^item> \<^verbatim>\<open>BudgetAgent.apply\<close> adds and subtracts costs, and there the rounding decides whether
    the budget is met; it has a second embedding, \<open>BudgetAgent_apply_b64\<close>, in which every
    float is a binary64 number and every operation rounds to the nearest one.
  \<^item> A Python \<^verbatim>\<open>str\<close> is a \<^typ>\<open>string\<close> holding its UTF-8 bytes.
  \<^item> A row dictionary is a record; a key that may be absent is an \<^typ>\<open>'a option\<close> field.
    Columns are taken to hold values of their declared SQL type (no NULL in a numeric
    column read by the pipeline).
  \<^item> A dictionary keyed by product id is a map \<^typ>\<open>int \<rightharpoonup> 'a\<close>.
  \<^item> An exception is a value \<open>Inl e\<close> of a sum type.
\<close>

subsection \<open>Rows\<close>

text \<open>A row of table \<^verbatim>\<open>products\<close>. The three columns read with \<^verbatim>\<open>prod.get(key, default)\<close>
  are optional keys.\<close>

record product =
  product_id :: int
  name :: string
  category :: string
  cost_price :: "real option"
  selling_price :: real
  min_stock :: "int option"
  max_stock :: "int option"
  lead_time_days :: int
  active :: int

text \<open>A row of the stock query of \<^verbatim>\<open>collect_state\<close>.\<close>

record stock_row =
  sr_product_id :: int
  sr_name :: string
  qty_in_hand :: int
  last_updated :: "string option"

text \<open>A row of table \<^verbatim>\<open>weekly_sales\<close>.\<close>

record sales_row =
  ws_id :: int
  ws_product_id :: int
  week_start_date :: string
  qty_sold :: int

text \<open>The dictionary returned by \<^verbatim>\<open>DataAgent.collect_state\<close>. The list under
  \<^verbatim>\<open>"products"\<close> holds the active products in id order; each list of
  \<^verbatim>\<open>"sales_by_product"\<close> is ordered most recent week first.\<close>

record state =
  products :: "product list"
  stock_by_product :: "int \<rightharpoonup> stock_row"
  sales_by_product :: "int \<rightharpoonup> sales_row list"

text \<open>A row of the plan. \<^verbatim>\<open>build_plan\<close> creates it without the keys
  \<^verbatim>\<open>unit_cost\<close>, \<^verbatim>\<open>line_cost\<close> and \<^verbatim>\<open>budget_note\<close>; \<^verbatim>\<open>BudgetAgent.apply\<close> adds them.\<close>

record plan_line =
  pl_product_id :: int
  pl_name :: string
  avg_weekly_sales :: real
  current_stock :: int
  forecast_next_week :: real
  suggested_order_qty :: int
  reason :: string
  unit_cost :: "real option"
  line_cost :: "real option"
  budget_note :: "string option"

datatype error = ZeroDivisionError

subsection \<open>Python built-ins\<close>

text \<open>\<^verbatim>\<open>round(x)\<close> of a float: the nearest integer, a tie going to the even one.\<close>

definition py_round :: "real \<Rightarrow> int" where
  "py_round x =
     (let f = \<lfloor>x\<rfloor>; d = x - of_int f
      in if d < 1 / 2 then f
         else if 1 / 2 < d then f + 1
         else if even f then f else f + 1)"

text \<open>\<^verbatim>\<open>round(x, 2)\<close>: the nearest multiple of 1/100, by the same rule, taken on the exact
  value.\<close>

definition py_round2 :: "real \<Rightarrow> real" where
  "py_round2 x = of_int (py_round (x * 100)) / 100"

text \<open>\<^verbatim>\<open>xs[:k]\<close>: a negative \<open>k\<close> counts from the end.\<close>

definition py_slice_to :: "int \<Rightarrow> 'a list \<Rightarrow> 'a list" where
  "py_slice_to k xs =
     (if 0 \<le> k then take (nat k) xs else take (nat (int (length xs) + k)) xs)"

text \<open>\<^verbatim>\<open>str(n)\<close> of an integer.\<close>

definition digit_char :: "nat \<Rightarrow> char" where
  "digit_char n = ''0123456789'' ! (n mod 10)"

fun str_nat :: "nat \<Rightarrow> string" where
  "str_nat n = (if n < 10 then [digit_char n] else str_nat (n div 10) @ [digit_char n])"

declare str_nat.simps [simp del]

definition str_int :: "int \<Rightarrow> string" where
  "str_int i = (if i < 0 then CHR ''-'' # str_nat (nat (- i)) else str_nat (nat i))"

text \<open>The format specification \<^verbatim>\<open>.<d>f\<close>: sign, integer part, and for \<open>0 < d\<close> a point and
  exactly \<open>d\<close> digits, the magnitude rounded to the nearest multiple of \<open>10\<^sup>-\<^sup>d\<close>, a tie
  going to the even digit; a negative value keeps its sign when it rounds to zero.\<close>

definition frac_digits :: "nat \<Rightarrow> nat \<Rightarrow> string" where
  "frac_digits d m = map (\<lambda>k. digit_char (m div 10 ^ (d - 1 - k))) [0..<d]"

definition format_fixed :: "nat \<Rightarrow> real \<Rightarrow> string" where
  "format_fixed d x =
     (let n = nat (py_round (\<bar>x\<bar> * 10 ^ d))
      in (if x < 0 then ''-'' else '''') @ str_nat (n div 10 ^ d) @
         (if d = 0 then '''' else CHR ''.'' # frac_digits d (n mod 10 ^ d)))"

subsection \<open>ForecastAgent\<close>

text \<open>\<^verbatim>\<open>_avg_sales\<close>: the guard tests \<^verbatim>\<open>rows\<close>, the division is by the length of the
  slice.\<close>

definition ForecastAgent_avg_sales :: "int \<Rightarrow> sales_row list \<Rightarrow> error + real" where
  "ForecastAgent_avg_sales max_weeks rows =
     (if rows = [] then Inr 0
      else
        let considered = py_slice_to max_weeks rows;
            qtys = map qty_sold considered
        in if length qtys = 0 then Inl ZeroDivisionError
           else Inr (of_int (sum_list qtys) / of_nat (length qtys)))"

text \<open>\<^verbatim>\<open>forecast\<close>: the loop over \<^verbatim>\<open>state["products"]\<close>, filling the dictionary;
  \<^verbatim>\<open>state["sales_by_product"].get(pid, [])\<close> is \<open>get_sales_rows\<close>.\<close>

definition get_sales_rows :: "state \<Rightarrow> int \<Rightarrow> sales_row list" where
  "get_sales_rows st pid = (case sales_by_product st pid of None \<Rightarrow> [] | Some rs \<Rightarrow> rs)"

fun forecast_loop ::
  "int \<Rightarrow> state \<Rightarrow> product list \<Rightarrow> (int \<rightharpoonup> real) \<Rightarrow> error + (int \<rightharpoonup> real)" where
  "forecast_loop max_weeks st [] forecasts = Inr forecasts"
| "forecast_loop max_weeks st (p # rest) forecasts =
     (let pid = product_id p;
          sales_rows = get_sales_rows st pid
      in case ForecastAgent_avg_sales max_weeks sales_rows of
           Inl e \<Rightarrow> Inl e
         | Inr a \<Rightarrow> forecast_loop max_weeks st rest (forecasts(pid \<mapsto> a)))"

definition ForecastAgent_forecast :: "int \<Rightarrow> state \<Rightarrow> error + (int \<rightharpoonup> real)" where
  "ForecastAgent_forecast max_weeks st = forecast_loop max_weeks st (products st) Map.empty"

subsection \<open>ReplenishmentAgent\<close>

definition approx_sign :: string where
  "approx_sign = [CHR 0xE2, CHR 0x89, CHR 0x88]"

definition en_dash :: string where
  "en_dash = [CHR 0xE2, CHR 0x80, CHR 0x93]"

definition slow_moving_reason :: string where
  "slow_moving_reason =
     ''Slow-moving item (avg < 1/week) with stock available '' @ en_dash @ '' no order.''"

text \<open>The values \<^verbatim>\<open>build_plan\<close> computes for one product, in the order of the loop body:
  the stock policy with its defaults, the stock on hand (0 without a stock row), the
  forecast (0.0 without an entry), the target stock, the quantity and the rationale.\<close>

definition get_min_stock :: "product \<Rightarrow> int" where
  "get_min_stock p = (case min_stock p of None \<Rightarrow> 0 | Some m \<Rightarrow> m)"

definition get_max_stock :: "product \<Rightarrow> int" where
  "get_max_stock p = (case max_stock p of None \<Rightarrow> 100 | Some m \<Rightarrow> m)"

definition get_current_stock :: "state \<Rightarrow> int \<Rightarrow> int" where
  "get_current_stock st pid =
     (case stock_by_product st pid of None \<Rightarrow> 0 | Some row \<Rightarrow> qty_in_hand row)"

definition get_forecast :: "(int \<rightharpoonup> real) \<Rightarrow> int \<Rightarrow> real" where
  "get_forecast forecasts pid = (case forecasts pid of None \<Rightarrow> 0 | Some a \<Rightarrow> a)"

definition required_stock :: "real \<Rightarrow> int \<Rightarrow> int \<Rightarrow> real \<Rightarrow> real" where
  "required_stock safety_factor min_stock' max_stock' forecast_next_week' =
     (let required_stock0 = max (of_int min_stock') (forecast_next_week' * safety_factor)
      in if of_int max_stock' < required_stock0 then of_int max_stock' else required_stock0)"

definition slow_moving :: "real \<Rightarrow> int \<Rightarrow> bool" where
  "slow_moving avg_sales current_stock' \<longleftrightarrow> avg_sales < 1 \<and> 0 < current_stock'"

definition order_qty :: "real \<Rightarrow> int \<Rightarrow> real \<Rightarrow> int" where
  "order_qty required_stock' current_stock' avg_sales =
     (let order_qty0 = py_round (required_stock' - of_int current_stock');
          order_qty1 = (if order_qty0 < 0 then 0 else order_qty0)
      in if slow_moving avg_sales current_stock' then 0 else order_qty1)"

definition reason_text :: "real \<Rightarrow> int \<Rightarrow> real \<Rightarrow> string" where
  "reason_text avg_sales current_stock' required_stock' =
     (if slow_moving avg_sales current_stock' then slow_moving_reason
      else ''Avg sales '' @ approx_sign @ '' '' @ format_fixed 1 avg_sales @ ''/week, '' @
           ''current stock = '' @ str_int current_stock' @ '', '' @
           ''target stock '' @ approx_sign @ '' '' @ format_fixed 1 required_stock' @ ''.'')"

definition plan_row :: "real \<Rightarrow> state \<Rightarrow> (int \<rightharpoonup> real) \<Rightarrow> product \<Rightarrow> plan_line" where
  "plan_row safety_factor st forecasts p =
     (let pid = product_id p;
          min_stock' = get_min_stock p;
          max_stock' = get_max_stock p;
          current_stock' = get_current_stock st pid;
          avg_sales = get_forecast forecasts pid;
          forecast_next_week' = avg_sales;
          required_stock' = required_stock safety_factor min_stock' max_stock' forecast_next_week'
      in \<lparr> pl_product_id = pid,
           pl_name = name p,
           avg_weekly_sales = py_round2 avg_sales,
           current_stock = current_stock',
           forecast_next_week = py_round2 forecast_next_week',
           suggested_order_qty = order_qty required_stock' current_stock' avg_sales,
           reason = reason_text avg_sales current_stock' required_stock',
           unit_cost = None,
           line_cost = None,
           budget_note = None \<rparr>)"

definition ReplenishmentAgent_build_plan ::
  "real \<Rightarrow> state \<Rightarrow> (int \<rightharpoonup> real) \<Rightarrow> plan_line list" where
  "ReplenishmentAgent_build_plan safety_factor st forecasts =
     map (plan_row safety_factor st forecasts) (products st)"

subsection \<open>BudgetAgent\<close>

text \<open>The dictionary comprehension \<^verbatim>\<open>price_index\<close>, with
  \<^verbatim>\<open>float(p.get("cost_price", 0.0))\<close> as \<open>get_cost_price\<close>: a later product overwrites an
  earlier one with the same id.\<close>

definition get_cost_price :: "product \<Rightarrow> real" where
  "get_cost_price p = (case cost_price p of None \<Rightarrow> 0 | Some c \<Rightarrow> c)"

definition price_index :: "product list \<Rightarrow> (int \<rightharpoonup> real)" where
  "price_index ps = fold (\<lambda>p m. m(product_id p \<mapsto> get_cost_price p)) ps Map.empty"

text \<open>\<^verbatim>\<open>price_index.get(pid, 0.0)\<close>.\<close>

definition get_price :: "(int \<rightharpoonup> real) \<Rightarrow> int \<Rightarrow> real" where
  "get_price idx pid = (case idx pid of None \<Rightarrow> 0 | Some c \<Rightarrow> c)"

text \<open>The first loop of \<^verbatim>\<open>apply\<close>: every row gets its unit cost and line cost.\<close>

definition price_row :: "(int \<rightharpoonup> real) \<Rightarrow> plan_line \<Rightarrow> plan_line" where
  "price_row idx row =
     (let cp = get_price idx (pl_product_id row)
      in row\<lparr> unit_cost := Some cp,
              line_cost := Some (cp * of_int (suggested_order_qty row)) \<rparr>)"

text \<open>\<^verbatim>\<open>row["line_cost"]\<close>. Every read happens after the first loop has set the key on every
  row (lemma \<open>line_cost_price_row\<close>), so the lookup cannot fail there.\<close>

definition get_line_cost :: "plan_line \<Rightarrow> real" where
  "get_line_cost row = (case line_cost row of None \<Rightarrow> 0 | Some c \<Rightarrow> c)"

definition drop_row :: "plan_line \<Rightarrow> plan_line" where
  "drop_row row =
     row\<lparr> suggested_order_qty := 0, line_cost := Some 0,
          budget_note := Some ''Dropped due to budget limit'' \<rparr>"

text \<open>The loop over \<^verbatim>\<open>sorted_plan\<close>: \<^verbatim>\<open>break\<close> once the excess is used up,
  \<^verbatim>\<open>continue\<close> on a row with nothing to drop.\<close>

fun drop_loop :: "real \<Rightarrow> plan_line list \<Rightarrow> plan_line list" where
  "drop_loop excess [] = []"
| "drop_loop excess (row # rest) =
     (if excess \<le> 0 then row # rest
      else if suggested_order_qty row \<le> 0 then row # drop_loop excess rest
      else drop_row row # drop_loop (excess - get_line_cost row) rest)"

definition keep_row :: "plan_line \<Rightarrow> plan_line" where
  "keep_row r =
     (if budget_note r = None then r\<lparr> budget_note := Some ''Kept in final order'' \<rparr> else r)"

definition within_row :: "plan_line \<Rightarrow> plan_line" where
  "within_row r = r\<lparr> budget_note := Some ''Within weekly budget'' \<rparr>"

text \<open>The plan after the first loop, and \<^verbatim>\<open>sum(r["line_cost"] for r in plan)\<close>. The rows
  of a plan are distinct dictionaries, as \<^verbatim>\<open>build_plan\<close> creates them, so updating one row
  leaves the others as they are and the plan is a list of values.\<close>

definition priced :: "product list \<Rightarrow> plan_line list \<Rightarrow> plan_line list" where
  "priced ps plan = map (price_row (price_index ps)) plan"

definition total_cost :: "plan_line list \<Rightarrow> real" where
  "total_cost plan = sum_list (map get_line_cost plan)"

definition BudgetAgent_apply :: "real \<Rightarrow> plan_line list \<Rightarrow> product list \<Rightarrow> plan_line list" where
  "BudgetAgent_apply weekly_budget plan ps =
     (let plan1 = priced ps plan;
          total_cost' = total_cost plan1
      in if total_cost' \<le> weekly_budget then map within_row plan1
         else
           let sorted_plan = sort_key avg_weekly_sales plan1;
               excess = total_cost' - weekly_budget
           in map keep_row (drop_loop excess sorted_plan))"

subsection \<open>BudgetAgent in binary64\<close>

text \<open>A Python float is an IEEE 754 binary64 number: an integer multiple of \<open>pow2 (e - 52)\<close>
  where \<open>e\<close>, at least -1022, is the exponent of the binade it lies in. \<open>binade n x\<close>
  finds the exponent of a positive \<open>x\<close> in at most \<open>n\<close> halvings or doublings, and \<open>b64 x\<close>
  is the binary64 number nearest to \<open>x\<close>, a tie going to the even multiple. Overflow to
  infinity is left out: the amounts are far below \<open>pow2 1024\<close>.\<close>

definition pow2 :: "int \<Rightarrow> real" where
  "pow2 k = (if 0 \<le> k then 2 ^ nat k else 1 / 2 ^ nat (- k))"

fun binade :: "nat \<Rightarrow> real \<Rightarrow> int" where
  "binade 0 x = 0"
| "binade (Suc n) x =
     (if x < 1 then binade n (2 * x) - 1
      else if 2 \<le> x then binade n (x / 2) + 1
      else 0)"

definition b64 :: "real \<Rightarrow> real" where
  "b64 x =
     (if x = 0 then 0
      else
        let e = max (- 1022) (binade 1100 \<bar>x\<bar>);
            ulp = pow2 (e - 52)
        in of_int (py_round (x / ulp)) * ulp)"

text \<open>\<^verbatim>\<open>float(p.get("cost_price", 0.0))\<close> yields a binary64 number.\<close>

definition price_index_b64 :: "product list \<Rightarrow> (int \<rightharpoonup> real)" where
  "price_index_b64 ps = fold (\<lambda>p m. m(product_id p \<mapsto> b64 (get_cost_price p))) ps Map.empty"

text \<open>\<^verbatim>\<open>cp * row["suggested_order_qty"]\<close>: the integer is converted to a float, and the
  product is rounded.\<close>

definition price_row_b64 :: "(int \<rightharpoonup> real) \<Rightarrow> plan_line \<Rightarrow> plan_line" where
  "price_row_b64 idx row =
     (let cp = get_price idx (pl_product_id row)
      in row\<lparr> unit_cost := Some cp,
              line_cost := Some (b64 (cp * b64 (of_int (suggested_order_qty row)))) \<rparr>)"

text \<open>\<^verbatim>\<open>sum(...)\<close> over floats, as CPython before 3.12 computes it: a running float,
  rounded after every addition. (From 3.12 on \<^verbatim>\<open>sum\<close> compensates the rounding errors of
  the additions and returns, at the input of claim C1 below, the same totals.)\<close>

definition sum_b64 :: "real list \<Rightarrow> real" where
  "sum_b64 xs = foldl (\<lambda>acc x. b64 (acc + x)) 0 xs"

text \<open>The loop over \<^verbatim>\<open>sorted_plan\<close> with \<^verbatim>\<open>excess -= reduction_cost\<close> rounded.\<close>

fun drop_loop_b64 :: "real \<Rightarrow> plan_line list \<Rightarrow> plan_line list" where
  "drop_loop_b64 excess [] = []"
| "drop_loop_b64 excess (row # rest) =
     (if excess \<le> 0 then row # rest
      else if suggested_order_qty row \<le> 0 then row # drop_loop_b64 excess rest
      else drop_row row # drop_loop_b64 (b64 (excess - get_line_cost row)) rest)"

text \<open>\<^verbatim>\<open>BudgetAgent.apply\<close> in binary64; \<open>weekly_budget\<close> is a binary64 number.\<close>

definition BudgetAgent_apply_b64 ::
  "real \<Rightarrow> plan_line list \<Rightarrow> product list \<Rightarrow> plan_line list" where
  "BudgetAgent_apply_b64 weekly_budget plan ps =
     (let plan1 = map (price_row_b64 (price_index_b64 ps)) plan;
          total_cost' = sum_b64 (map get_line_cost plan1)
      in if total_cost' \<le> weekly_budget then map within_row plan1
         else
           let sorted_plan = sort_key avg_weekly_sales plan1;
               excess = b64 (total_cost' - weekly_budget)
           in map keep_row (drop_loop_b64 excess sorted_plan))"

subsection \<open>The pipeline\<close>

text \<open>\<^verbatim>\<open>run_agent_pipeline\<close>, with the three constructor arguments of the agents as
  parameters; the summary text of \<^verbatim>\<open>ReportingAgent\<close> is left out.\<close>

definition run_agent_pipeline :: "int \<Rightarrow> real \<Rightarrow> real \<Rightarrow> state \<Rightarrow> error + plan_line list" where
  "run_agent_pipeline max_weeks safety_factor weekly_budget st =
     (case ForecastAgent_forecast max_weeks st of
        Inl e \<Rightarrow> Inl e
      | Inr forecasts \<Rightarrow>
          Inr (BudgetAgent_apply weekly_budget
                 (ReplenishmentAgent_build_plan safety_factor st forecasts) (products st)))"

subsection \<open>The specification's formulas\<close>

text \<open>Section 4.1 of the specification: the mean of \<open>qty_sold\<close> over the up to
  \<open>horizonWeeks\<close> most recent records, 0 without records.\<close>

definition forecast_spec :: "nat \<Rightarrow> sales_row list \<Rightarrow> real" where
  "forecast_spec horizonWeeks records =
     (if records = [] then 0
      else of_int (sum_list (map qty_sold (take horizonWeeks records))) /
           of_nat (length (take horizonWeeks records)))"

text \<open>Section 4.2, steps 3 and 4: the target stock and the order quantity.\<close>

definition required_stock_spec :: "real \<Rightarrow> int \<Rightarrow> int \<Rightarrow> real \<Rightarrow> real" where
  "required_stock_spec safetyFactor minStock maxStock forecast =
     min (of_int maxStock) (max (of_int minStock) (forecast * safetyFactor))"

definition order_qty_spec :: "real \<Rightarrow> int \<Rightarrow> int" where
  "order_qty_spec requiredStock currentStock =
     max 0 (py_round (requiredStock - of_int currentStock))"

text \<open>Section 4.3, step 4: the running excess when the walk reaches position \<open>i\<close> of the
  sorted sequence, had every line with a positive quantity before \<open>i\<close> been dropped; the
  walk reaches \<open>i\<close> without stopping when the excess was positive at every position up
  to \<open>i\<close>.\<close>

definition excess_before :: "real \<Rightarrow> plan_line list \<Rightarrow> nat \<Rightarrow> real" where
  "excess_before excess s i =
     excess - sum_list (map get_line_cost (filter (\<lambda>r. 0 < suggested_order_qty r) (take i s)))"

definition walk_visits :: "real \<Rightarrow> plan_line list \<Rightarrow> nat \<Rightarrow> bool" where
  "walk_visits excess s i \<longleftrightarrow> (\<forall>j\<in>set [0..<Suc i]. 0 < excess_before excess s j)"

text \<open>A final line \<open>l\<close> is the plan line \<open>r\<close> after \<^verbatim>\<open>apply\<close>: the fields written by
  \<^verbatim>\<open>build_plan\<close> are those of \<open>r\<close>, except that a positive quantity may have become 0.\<close>

definition line_after_apply :: "plan_line \<Rightarrow> plan_line \<Rightarrow> bool" where
  "line_after_apply l r \<longleftrightarrow>
     pl_product_id l = pl_product_id r \<and> pl_name l = pl_name r \<and>
     avg_weekly_sales l = avg_weekly_sales r \<and> current_stock l = current_stock r \<and>
     forecast_next_week l = forecast_next_week r \<and> reason l = reason r \<and>
     (suggested_order_qty l = suggested_order_qty r \<or>
      suggested_order_qty l = 0 \<and> 0 < suggested_order_qty r)"

text \<open>Section 4.2, step 6: the sentence reporting forecast, current stock and target
  stock, the forecast and the target printed with \<open>d\<close> decimals.\<close>

definition rationale_sentence :: "nat \<Rightarrow> real \<Rightarrow> int \<Rightarrow> real \<Rightarrow> string" where
  "rationale_sentence d forecast currentStock targetStock =
     ''Avg sales '' @ approx_sign @ '' '' @ format_fixed d forecast @ ''/week, current stock = '' @
     str_int currentStock @ '', target stock '' @ approx_sign @ '' '' @
     format_fixed d targetStock @ ''.''"

text \<open>The characters of a decimal digit string.\<close>

definition is_digit :: "char \<Rightarrow> bool" where
  "is_digit c \<longleftrightarrow> c \<in> set ''0123456789''"

subsection \<open>Scenarios\<close>

text \<open>Rows for the scenarios of section 8 of the specification.\<close>

definition mk_product :: "int \<Rightarrow> real \<Rightarrow> int \<Rightarrow> int \<Rightarrow> product" where
  "mk_product pid cost mn mx =
     \<lparr> product_id = pid, name = ''item'', category = ''general'', cost_price = Some cost,
       selling_price = 0, min_stock = Some mn, max_stock = Some mx, lead_time_days = 3,
       active = 1 \<rparr>"

definition mk_sale :: "int \<Rightarrow> int \<Rightarrow> sales_row" where
  "mk_sale pid q =
     \<lparr> ws_id = 0, ws_product_id = pid, week_start_date = ''2024-01-01'', qty_sold = q \<rparr>"

definition mk_stock :: "int \<Rightarrow> int \<Rightarrow> stock_row" where
  "mk_stock pid q =
     \<lparr> sr_product_id = pid, sr_name = ''item'', qty_in_hand = q, last_updated = None \<rparr>"

text \<open>Scenario 1: one product, cost 5, stock policy 10 to 100, no history, no stock.\<close>

definition scenario1 :: state where
  "scenario1 =
     \<lparr> products = [mk_product 1 5 10 100],
       stock_by_product = Map.empty,
       sales_by_product = Map.empty \<rparr>"

text \<open>Scenario 2: the same product with 3 units on hand and an average of half a unit a
  week.\<close>

definition scenario2 :: state where
  "scenario2 =
     \<lparr> products = [mk_product 1 5 10 100],
       stock_by_product = [1 \<mapsto> mk_stock 1 3],
       sales_by_product = [1 \<mapsto> [mk_sale 1 1, mk_sale 1 0, mk_sale 1 0, mk_sale 1 1]] \<rparr>"

text \<open>Scenario 3: two products at 1000 a unit, each needing 30 units; product 2 sells
  less.\<close>

definition scenario3 :: state where
  "scenario3 =
     \<lparr> products = [mk_product 1 1000 0 100, mk_product 2 1000 30 100],
       stock_by_product = Map.empty,
       sales_by_product = [1 \<mapsto> [mk_sale 1 20], 2 \<mapsto> [mk_sale 2 10]] \<rparr>"

text \<open>A product with a negative cost price, which the products form accepts.\<close>

definition scenario_negative_cost :: state where
  "scenario_negative_cost =
     \<lparr> products = [mk_product 1 (- 5) 10 100],
       stock_by_product = Map.empty,
       sales_by_product = Map.empty \<rparr>"

text \<open>A product that sold 2, 2, 2 and 3 units in its last four weeks.\<close>

definition scenario_fraction :: state where
  "scenario_fraction =
     \<lparr> products = [mk_product 1 5 0 100],
       stock_by_product = Map.empty,
       sales_by_product = [1 \<mapsto> [mk_sale 1 2, mk_sale 1 2, mk_sale 1 2, mk_sale 1 3]] \<rparr>"

text \<open>Three products priced 3107.15, 48.44 and 8301.04 with minimum stocks 35, 2 and 3,
  nothing on hand; the first never sold, the others sold 1 and 2 units in their one
  recorded week.\<close>

definition scenario_rounding :: state where
  "scenario_rounding =
     \<lparr> products =
         [mk_product 1 (310715 / 100) 35 100, mk_product 2 (4844 / 100) 2 100,
          mk_product 3 (830104 / 100) 3 100],
       stock_by_product = Map.empty,
       sales_by_product = [2 \<mapsto> [mk_sale 2 1], 3 \<mapsto> [mk_sale 3 2]] \<rparr>"

section \<open>Properties\<close>

subsection \<open>Evaluation\<close>

lemmas forecast_defs =
  ForecastAgent_forecast_def ForecastAgent_avg_sales_def get_sales_rows_def py_slice_to_def

lemmas build_plan_defs =
  ReplenishmentAgent_build_plan_def plan_row_def get_min_stock_def get_max_stock_def
  get_current_stock_def get_forecast_def required_stock_def slow_moving_def order_qty_def
  py_round_def py_round2_def

lemmas apply_defs =
  BudgetAgent_apply_def priced_def total_cost_def price_index_def get_cost_price_def
  get_price_def price_row_def get_line_cost_def drop_row_def keep_row_def within_row_def

lemmas scenario_defs = mk_product_def mk_sale_def mk_stock_def

subsection \<open>Rounding\<close>

lemma py_round_of_int [simp]: "py_round (of_int n) = n"
  by (simp add: py_round_def)

lemma py_round_upper: "of_int (py_round x) \<le> x + 1 / 2"
  unfolding py_round_def Let_def by (auto; linarith)

lemma py_round_lower: "x - 1 / 2 \<le> of_int (py_round x)"
  unfolding py_round_def Let_def by (auto; linarith)

lemma py_round_le_int:
  assumes "x \<le> of_int m"
  shows "py_round x \<le> m"
proof -
  from assms py_round_upper [of x] have "real_of_int (py_round x) < of_int (m + 1)"
    by simp
  then have "py_round x < m + 1"
    by (simp only: of_int_less_iff)
  then show ?thesis by simp
qed

subsection \<open>The plan of the ReplenishmentAgent\<close>

lemma length_build_plan [simp]:
  "length (ReplenishmentAgent_build_plan sf st fc) = length (products st)"
  by (simp add: ReplenishmentAgent_build_plan_def)

lemma nth_build_plan:
  "i < length (products st) \<Longrightarrow>
   ReplenishmentAgent_build_plan sf st fc ! i = plan_row sf st fc (products st ! i)"
  by (simp add: ReplenishmentAgent_build_plan_def)

lemma required_stock_le_max: "required_stock sf mn mx f \<le> of_int mx"
  by (auto simp: required_stock_def Let_def)

lemma required_stock_eq_spec: "required_stock sf mn mx f = required_stock_spec sf mn mx f"
  by (simp add: required_stock_def required_stock_spec_def Let_def min_def)

lemma order_qty_not_slow: "\<not> slow_moving a c \<Longrightarrow> order_qty r c a = order_qty_spec r c"
  by (simp add: order_qty_def order_qty_spec_def Let_def max_def)

lemma order_qty_slow: "slow_moving a c \<Longrightarrow> order_qty r c a = 0"
  by (simp add: order_qty_def Let_def)

lemma order_qty_nonneg: "0 \<le> order_qty r c a"
  by (simp add: order_qty_def Let_def)

lemma qty_plan_row:
  "suggested_order_qty (plan_row sf st fc p) =
     order_qty
       (required_stock sf (get_min_stock p) (get_max_stock p) (get_forecast fc (product_id p)))
       (get_current_stock st (product_id p)) (get_forecast fc (product_id p))"
  by (simp add: plan_row_def Let_def)

lemma current_stock_plan_row:
  "current_stock (plan_row sf st fc p) = get_current_stock st (product_id p)"
  by (simp add: plan_row_def Let_def)

lemma pid_plan_row: "pl_product_id (plan_row sf st fc p) = product_id p"
  by (simp add: plan_row_def Let_def)

text \<open>
  Claim C3. For a product that the slow-mover override does not hit, \<^verbatim>\<open>build_plan\<close>
  orders \<open>max(0, round(requiredStock - currentStock))\<close>, where \<open>requiredStock\<close> is
  \<open>max(minStock, forecast * safetyFactor)\<close> clamped down to \<open>maxStock\<close> and
  \<open>currentStock\<close> is 0 without a stock record; with \<open>max_stock = 50\<close>, forecast 1000 and
  safety factor 1.5 the target stock is 50, whatever the minimum.
\<close>

theorem build_plan_order_qty:
  assumes "i < length (products st)"
    and "\<not> slow_moving (get_forecast fc (product_id (products st ! i)))
             (get_current_stock st (product_id (products st ! i)))"
  shows "(let p = products st ! i;
              line = ReplenishmentAgent_build_plan sf st fc ! i;
              currentStock =
                (case stock_by_product st (product_id p) of None \<Rightarrow> 0
                 | Some row \<Rightarrow> qty_in_hand row);
              requiredStock =
                required_stock_spec sf (get_min_stock p) (get_max_stock p)
                  (get_forecast fc (product_id p))
          in suggested_order_qty line = order_qty_spec requiredStock currentStock \<and>
             current_stock line = currentStock \<and>
             required_stock sf (get_min_stock p) (get_max_stock p)
               (get_forecast fc (product_id p)) = requiredStock) \<and>
         required_stock (3 / 2) mn 50 1000 = 50"
proof -
  have "(50::real) < max (of_int mn) 1500"
    by simp
  then have "required_stock (3 / 2) mn 50 1000 = 50"
    by (simp add: required_stock_def Let_def)
  with assms show ?thesis
    by (simp add: Let_def nth_build_plan qty_plan_row current_stock_plan_row
        order_qty_not_slow required_stock_eq_spec get_current_stock_def)
qed

theorem build_plan_order_qty_witness:
  "0 < length (products scenario1) \<and>
   \<not> slow_moving (get_forecast Map.empty (product_id (products scenario1 ! 0)))
       (get_current_stock scenario1 (product_id (products scenario1 ! 0))) \<and>
   suggested_order_qty (ReplenishmentAgent_build_plan (3 / 2) scenario1 Map.empty ! 0) = 10 \<and>
   required_stock_spec (3 / 2) 10 100 0 = 10"
  using build_plan_order_qty [of 0 scenario1 Map.empty "3 / 2" 0]
  by (simp add: scenario1_def scenario_defs build_plan_defs required_stock_spec_def
      order_qty_spec_def)

text \<open>
  Claim C10. For a product with \<open>max_stock \<ge> min_stock \<ge> 0\<close> and a stock on hand that is
  not negative, the quantity \<^verbatim>\<open>build_plan\<close> suggests is at most \<open>max_stock\<close>.
\<close>

theorem build_plan_qty_le_max_stock:
  assumes "i < length (products st)"
    and "0 \<le> get_min_stock (products st ! i)"
    and "get_min_stock (products st ! i) \<le> get_max_stock (products st ! i)"
    and "0 \<le> get_current_stock st (product_id (products st ! i))"
  shows "suggested_order_qty (ReplenishmentAgent_build_plan sf st fc ! i)
           \<le> get_max_stock (products st ! i)"
proof -
  let ?p = "products st ! i"
  let ?r = "required_stock sf (get_min_stock ?p) (get_max_stock ?p)
              (get_forecast fc (product_id ?p))"
  let ?c = "get_current_stock st (product_id ?p)"
  have "?r \<le> of_int (get_max_stock ?p)"
    by (rule required_stock_le_max)
  moreover have "(0::real) \<le> of_int ?c"
    using assms(4) by simp
  ultimately have "?r - of_int ?c \<le> of_int (get_max_stock ?p)"
    by linarith
  then have "py_round (?r - of_int ?c) \<le> get_max_stock ?p"
    by (rule py_round_le_int)
  moreover have "0 \<le> get_max_stock ?p"
    using assms(2,3) by linarith
  ultimately have "order_qty ?r ?c (get_forecast fc (product_id ?p)) \<le> get_max_stock ?p"
    by (simp add: order_qty_def Let_def)
  then show ?thesis
    using assms(1) by (simp add: nth_build_plan qty_plan_row)
qed

theorem build_plan_qty_le_max_stock_witness:
  "suggested_order_qty
     (ReplenishmentAgent_build_plan (3 / 2) scenario3 [1 \<mapsto> 20, 2 \<mapsto> 10] ! 0) = 30 \<and>
   get_max_stock (products scenario3 ! 0) = 100 \<and>
   get_min_stock (products scenario3 ! 0) = 0 \<and>
   get_current_stock scenario3 (product_id (products scenario3 ! 0)) = 0"
  using build_plan_qty_le_max_stock [of 0 scenario3 "3 / 2" "[1 \<mapsto> 20, 2 \<mapsto> 10]"]
  by (simp add: scenario3_def scenario_defs build_plan_defs)

lemma build_plan_qty_nonneg:
  "\<forall>r\<in>set (ReplenishmentAgent_build_plan sf st fc). 0 \<le> suggested_order_qty r"
  by (auto simp: ReplenishmentAgent_build_plan_def qty_plan_row order_qty_nonneg)

subsection \<open>The two branches of the BudgetAgent\<close>

lemma apply_within:
  "total_cost (priced ps plan) \<le> b \<Longrightarrow>
   BudgetAgent_apply b plan ps = map within_row (priced ps plan)"
  by (simp add: BudgetAgent_apply_def Let_def)

lemma apply_over:
  "b < total_cost (priced ps plan) \<Longrightarrow>
   BudgetAgent_apply b plan ps =
     map keep_row
       (drop_loop (total_cost (priced ps plan) - b) (sort_key avg_weekly_sales (priced ps plan)))"
  by (simp add: BudgetAgent_apply_def Let_def)

lemma length_priced [simp]: "length (priced ps plan) = length plan"
  by (simp add: priced_def)

lemma length_drop_loop [simp]: "length (drop_loop e xs) = length xs"
  by (induction xs arbitrary: e) auto

lemma map_drop_loop: "(\<And>r. f (drop_row r) = f r) \<Longrightarrow> map f (drop_loop e xs) = map f xs"
  by (induction xs arbitrary: e) auto

lemma get_line_cost_keep_row [simp]: "get_line_cost (keep_row r) = get_line_cost r"
  by (simp add: keep_row_def get_line_cost_def)

lemma get_line_cost_within_row [simp]: "get_line_cost (within_row r) = get_line_cost r"
  by (simp add: within_row_def get_line_cost_def)

lemma get_line_cost_drop_row [simp]: "get_line_cost (drop_row r) = 0"
  by (simp add: drop_row_def get_line_cost_def)

lemma get_line_cost_price_row [simp]:
  "get_line_cost (price_row idx r) =
     get_price idx (pl_product_id r) * of_int (suggested_order_qty r)"
  by (simp add: price_row_def get_line_cost_def Let_def)

lemma qty_price_row [simp]: "suggested_order_qty (price_row idx r) = suggested_order_qty r"
  by (simp add: price_row_def Let_def)

lemma line_cost_price_row: "line_cost (price_row idx r) \<noteq> None"
  by (simp add: price_row_def Let_def)

lemma line_cost_priced: "\<forall>r\<in>set (priced ps plan). line_cost r \<noteq> None"
  by (auto simp: priced_def price_row_def Let_def)

lemma line_cost_keep_row [simp]: "line_cost (keep_row r) = line_cost r"
  by (simp add: keep_row_def)

lemma line_cost_within_row [simp]: "line_cost (within_row r) = line_cost r"
  by (simp add: within_row_def)

lemma line_cost_drop_loop:
  "\<forall>r\<in>set xs. line_cost r \<noteq> None \<Longrightarrow> \<forall>r\<in>set (drop_loop e xs). line_cost r \<noteq> None"
  by (induction xs arbitrary: e) (auto simp: drop_row_def)

lemma apply_line_cost_set: "\<forall>l\<in>set (BudgetAgent_apply b plan ps). line_cost l \<noteq> None"
proof (cases "total_cost (priced ps plan) \<le> b")
  case True
  with line_cost_priced [of ps plan] show ?thesis
    by (auto simp: apply_within)
next
  case False
  have "\<forall>r\<in>set (sort_key avg_weekly_sales (priced ps plan)). line_cost r \<noteq> None"
    using line_cost_priced [of ps plan] by simp
  from line_cost_drop_loop [OF this] False show ?thesis
    by (auto simp: apply_over)
qed

lemma total_cost_sort_key [simp]: "total_cost (sort_key f xs) = total_cost xs"
proof -
  have "mset (map get_line_cost (sort_key f xs)) = mset (map get_line_cost xs)"
    by simp
  then show ?thesis
    unfolding total_cost_def by (metis sum_mset_sum_list)
qed

lemma total_cost_map_keep_row [simp]: "total_cost (map keep_row xs) = total_cost xs"
  by (simp add: total_cost_def comp_def)

lemma total_cost_map_within_row [simp]: "total_cost (map within_row xs) = total_cost xs"
  by (simp add: total_cost_def comp_def)

lemma priced_zero_cost:
  "\<forall>r\<in>set plan. 0 \<le> suggested_order_qty r \<Longrightarrow>
   \<forall>r\<in>set (priced ps plan). suggested_order_qty r \<le> 0 \<longrightarrow> get_line_cost r = 0"
  by (auto simp: priced_def)

text \<open>The invariant of the walk: what is left of the excess bounds what is left of the
  cost, and a plan with nothing left to drop costs nothing.\<close>

lemma drop_loop_total:
  "\<forall>r\<in>set xs. suggested_order_qty r \<le> 0 \<longrightarrow> get_line_cost r = 0 \<Longrightarrow>
   total_cost (drop_loop e xs) \<le> max (total_cost xs - e) 0"
proof (induction xs arbitrary: e)
  case Nil
  then show ?case by (simp add: total_cost_def)
next
  case (Cons a xs)
  have rest: "\<forall>r\<in>set xs. suggested_order_qty r \<le> 0 \<longrightarrow> get_line_cost r = 0"
    using Cons.prems by simp
  show ?case
  proof (cases "e \<le> 0")
    case True
    then show ?thesis by (simp add: total_cost_def)
  next
    case pos: False
    show ?thesis
    proof (cases "suggested_order_qty a \<le> 0")
      case True
      then have "get_line_cost a = 0"
        using Cons.prems by simp
      with Cons.IH [OF rest, of e] pos True show ?thesis
        by (simp add: total_cost_def)
    next
      case False
      have "total_cost (drop_loop (e - get_line_cost a) xs)
              \<le> max (total_cost xs - (e - get_line_cost a)) 0"
        by (rule Cons.IH [OF rest])
      with pos False show ?thesis
        by (simp add: total_cost_def algebra_simps)
    qed
  qed
qed

text \<open>In exact arithmetic the walk ends within a budget that is not negative, whenever no
  quantity of the plan is negative. This is a fact about \<open>BudgetAgent_apply\<close> only: in
  binary64 the rounded total and the rounded excess can end the walk too early, see
  \<open>BudgetAgent_apply_b64\<close> below.\<close>

lemma apply_total_le_budget:
  assumes "0 \<le> weekly_budget"
    and "\<forall>r\<in>set plan. 0 \<le> suggested_order_qty r"
  shows "total_cost (BudgetAgent_apply weekly_budget plan ps) \<le> weekly_budget"
proof (cases "total_cost (priced ps plan) \<le> weekly_budget")
  case True
  then show ?thesis by (simp add: apply_within)
next
  case False
  let ?s = "sort_key avg_weekly_sales (priced ps plan)"
  let ?e = "total_cost (priced ps plan) - weekly_budget"
  have "\<forall>r\<in>set ?s. suggested_order_qty r \<le> 0 \<longrightarrow> get_line_cost r = 0"
    using priced_zero_cost [OF assms(2)] by simp
  then have "total_cost (drop_loop ?e ?s) \<le> max (total_cost ?s - ?e) 0"
    by (rule drop_loop_total)
  also have "\<dots> = weekly_budget"
    using assms(1) by simp
  finally show ?thesis
    using False by (simp add: apply_over)
qed

lemma scenario3_plan_qty:
  "map suggested_order_qty
     (ReplenishmentAgent_build_plan (3 / 2) scenario3 [1 \<mapsto> 20, 2 \<mapsto> 10]) = [30, 30]"
  by (simp add: scenario3_def scenario_defs build_plan_defs)

lemma scenario3_priced_total:
  "total_cost
     (priced (products scenario3)
        (ReplenishmentAgent_build_plan (3 / 2) scenario3 [1 \<mapsto> 20, 2 \<mapsto> 10])) = 60000"
  by (simp add: scenario3_def scenario_defs build_plan_defs apply_defs)

subsection \<open>The walk over the sorted plan\<close>

lemma excess_before_0 [simp]: "excess_before e s 0 = e"
  by (simp add: excess_before_def)

lemma excess_before_Suc:
  "excess_before e (r # s) (Suc j) =
     excess_before (if 0 < suggested_order_qty r then e - get_line_cost r else e) s j"
  by (simp add: excess_before_def)

lemma walk_visits_iff: "walk_visits e s i \<longleftrightarrow> (\<forall>j\<le>i. 0 < excess_before e s j)"
  unfolding walk_visits_def by (auto simp del: upt_Suc simp: less_Suc_eq_le)

lemma walk_visits_0 [simp]: "walk_visits e s 0 \<longleftrightarrow> 0 < e"
  by (simp add: walk_visits_iff)

lemma walk_visits_Suc:
  "walk_visits e (r # s) (Suc i) \<longleftrightarrow>
     0 < e \<and> walk_visits (if 0 < suggested_order_qty r then e - get_line_cost r else e) s i"
proof -
  have "(\<forall>j\<le>Suc i. 0 < excess_before e (r # s) j) \<longleftrightarrow>
        0 < excess_before e (r # s) 0 \<and> (\<forall>j\<le>i. 0 < excess_before e (r # s) (Suc j))"
    by (metis Suc_le_mono le0 not0_implies_Suc)
  then show ?thesis
    by (simp only: walk_visits_iff excess_before_Suc excess_before_0)
qed

lemma walk_visits_nonpos: "e \<le> 0 \<Longrightarrow> \<not> walk_visits e s i"
  unfolding walk_visits_iff using excess_before_0 [of e s] by (metis le0 not_less)

lemma nth_drop_loop:
  "i < length s \<Longrightarrow>
   drop_loop e s ! i =
     (if walk_visits e s i \<and> 0 < suggested_order_qty (s ! i) then drop_row (s ! i) else s ! i)"
proof (induction s arbitrary: e i)
  case Nil
  then show ?case by simp
next
  case (Cons r s)
  show ?case
  proof (cases "e \<le> 0")
    case True
    then show ?thesis by (simp add: walk_visits_nonpos)
  next
    case pos: False
    show ?thesis
    proof (cases i)
      case 0
      with pos show ?thesis by simp
    next
      case (Suc k)
      with Cons.prems have k: "k < length s"
        by simp
      from pos Suc Cons.IH [OF k] show ?thesis
        by (simp add: walk_visits_Suc)
    qed
  qed
qed

lemma avg_drop_row [simp]: "avg_weekly_sales (drop_row r) = avg_weekly_sales r"
  by (simp add: drop_row_def)

lemma avg_keep_row [simp]: "avg_weekly_sales (keep_row r) = avg_weekly_sales r"
  by (simp add: keep_row_def)




lemma scenario3_apply:
  "map (\<lambda>l. (pl_product_id l, suggested_order_qty l, line_cost l, budget_note l))
     (BudgetAgent_apply 40000
        (ReplenishmentAgent_build_plan (3 / 2) scenario3 [1 \<mapsto> 20, 2 \<mapsto> 10])
        (products scenario3)) =
   [(2, 0, Some 0, Some ''Dropped due to budget limit''),
    (1, 30, Some 30000, Some ''Kept in final order'')]"
  by (simp add: scenario3_def scenario_defs build_plan_defs apply_defs)


subsection \<open>The forecasts\<close>

lemma avg_sales_empty [simp]: "ForecastAgent_avg_sales max_weeks [] = Inr 0"
  by (simp add: ForecastAgent_avg_sales_def)

lemma avg_sales_positive_horizon:
  assumes "1 \<le> max_weeks"
  shows "ForecastAgent_avg_sales max_weeks rows = Inr (forecast_spec (nat max_weeks) rows)"
proof (cases "rows = []")
  case True
  then show ?thesis by (simp add: forecast_spec_def)
next
  case False
  from assms have slice: "py_slice_to max_weeks rows = take (nat max_weeks) rows"
    by (simp add: py_slice_to_def)
  from assms False have "take (nat max_weeks) rows \<noteq> []"
    by (cases rows) (auto simp: take_Cons')
  with False slice show ?thesis
    by (simp add: ForecastAgent_avg_sales_def forecast_spec_def Let_def)
qed

lemma forecast_loop_Inr:
  assumes "\<forall>p\<in>set ps.
             ForecastAgent_avg_sales mw (get_sales_rows st (product_id p)) = Inr (a (product_id p))"
  shows "forecast_loop mw st ps acc =
           Inr (\<lambda>pid. if pid \<in> product_id ` set ps then Some (a pid) else acc pid)"
  using assms
proof (induction ps arbitrary: acc)
  case Nil
  then show ?case by simp
next
  case (Cons p ps)
  let ?g = "\<lambda>pid. if pid \<in> product_id ` set ps then Some (a pid)
                  else (acc(product_id p \<mapsto> a (product_id p))) pid"
  have head: "ForecastAgent_avg_sales mw (get_sales_rows st (product_id p)) =
                Inr (a (product_id p))"
    using Cons.prems by simp
  have rest: "forecast_loop mw st ps (acc(product_id p \<mapsto> a (product_id p))) = Inr ?g"
    using Cons.prems by (intro Cons.IH) simp
  have eq: "?g = (\<lambda>pid. if pid \<in> product_id ` set (p # ps) then Some (a pid) else acc pid)"
    by (rule ext) auto
  show ?case
    unfolding forecast_loop.simps Let_def head sum.case rest eq ..
qed

lemma forecast_positive_horizon:
  assumes "1 \<le> mw"
  shows "ForecastAgent_forecast mw st =
           Inr (\<lambda>pid. if pid \<in> product_id ` set (products st)
                      then Some (forecast_spec (nat mw) (get_sales_rows st pid)) else None)"
  unfolding ForecastAgent_forecast_def
  by (rule forecast_loop_Inr) (simp add: avg_sales_positive_horizon [OF assms])

lemma forecast_no_history:
  assumes "\<forall>p\<in>set (products st). get_sales_rows st (product_id p) = []"
  shows "ForecastAgent_forecast mw st =
           Inr (\<lambda>pid. if pid \<in> product_id ` set (products st) then Some 0 else None)"
  unfolding ForecastAgent_forecast_def
  by (rule forecast_loop_Inr) (simp add: assms)

text \<open>
  Claim C4, as the code has it. With a horizon of at least one week,
  \<^verbatim>\<open>ForecastAgent.forecast\<close> returns, for every product of the snapshot, 0 when the product
  has no sales records and otherwise the plain mean of \<open>qty_sold\<close> over its first
  \<open>min(horizon, number of records)\<close> records, which are its most recent ones; and for
  every horizon it returns 0 for every product, without raising, when no product has
  sales records.
\<close>

theorem forecast_mean:
  "(1 \<le> max_weeks \<longrightarrow>
      (\<exists>fc. ForecastAgent_forecast max_weeks st = Inr fc \<and>
            dom fc = product_id ` set (products st) \<and>
            (\<forall>p\<in>set (products st).
               fc (product_id p) =
                 Some (forecast_spec (nat max_weeks) (get_sales_rows st (product_id p))) \<and>
               (get_sales_rows st (product_id p) = [] \<longrightarrow> fc (product_id p) = Some 0)))) \<and>
   ((\<forall>p\<in>set (products st). get_sales_rows st (product_id p) = []) \<longrightarrow>
      (\<exists>fc. ForecastAgent_forecast max_weeks st = Inr fc \<and>
            (\<forall>p\<in>set (products st). fc (product_id p) = Some 0)))"
proof (intro conjI impI)
  assume mw: "1 \<le> max_weeks"
  let ?fc = "\<lambda>pid. if pid \<in> product_id ` set (products st)
                   then Some (forecast_spec (nat max_weeks) (get_sales_rows st pid)) else None"
  have "ForecastAgent_forecast max_weeks st = Inr ?fc"
    by (rule forecast_positive_horizon [OF mw])
  moreover have "dom ?fc = product_id ` set (products st)"
    by (auto simp: dom_def)
  moreover have "\<forall>p\<in>set (products st).
      ?fc (product_id p) = Some (forecast_spec (nat max_weeks) (get_sales_rows st (product_id p))) \<and>
      (get_sales_rows st (product_id p) = [] \<longrightarrow> ?fc (product_id p) = Some 0)"
    by (simp add: forecast_spec_def)
  ultimately show "\<exists>fc. ForecastAgent_forecast max_weeks st = Inr fc \<and>
            dom fc = product_id ` set (products st) \<and>
            (\<forall>p\<in>set (products st).
               fc (product_id p) =
                 Some (forecast_spec (nat max_weeks) (get_sales_rows st (product_id p))) \<and>
               (get_sales_rows st (product_id p) = [] \<longrightarrow> fc (product_id p) = Some 0))"
    by blast
next
  assume "\<forall>p\<in>set (products st). get_sales_rows st (product_id p) = []"
  from forecast_no_history [OF this, of max_weeks]
  show "\<exists>fc. ForecastAgent_forecast max_weeks st = Inr fc \<and>
            (\<forall>p\<in>set (products st). fc (product_id p) = Some 0)"
    by simp
qed

theorem forecast_mean_witness:
  "ForecastAgent_forecast 4 scenario_fraction = Inr [1 \<mapsto> 9 / 4] \<and>
   forecast_spec 4 (get_sales_rows scenario_fraction 1) = 9 / 4 \<and>
   ForecastAgent_forecast 0 scenario1 = Inr [1 \<mapsto> 0]"
proof -
  have a: "ForecastAgent_forecast 4 scenario_fraction = Inr [1 \<mapsto> 9 / 4]"
    by (simp add: scenario_fraction_def scenario_defs forecast_defs Let_def)
  have b: "forecast_spec 4 (get_sales_rows scenario_fraction 1) = 9 / 4"
    by (simp add: scenario_fraction_def scenario_defs forecast_spec_def get_sales_rows_def)
  have c: "ForecastAgent_forecast 0 scenario1 = Inr [1 \<mapsto> 0]"
    by (simp add: scenario1_def scenario_defs forecast_defs Let_def)
  from forecast_mean [of 4 scenario_fraction] a b c show ?thesis
    by simp
qed

text \<open>With a horizon of 0 the slice \<^verbatim>\<open>rows[:0]\<close> of a product with a sales record is empty,
  and the division raises.\<close>

theorem forecast_zero_horizon_counterexample:
  "ForecastAgent_avg_sales 0 [mk_sale 1 20] = Inl ZeroDivisionError \<and>
   ForecastAgent_forecast 0 scenario3 = Inl ZeroDivisionError \<and>
   get_sales_rows scenario3 1 = [mk_sale 1 20] \<and>
   forecast_spec 0 [mk_sale 1 20] = 0"
  by (simp add: scenario3_def scenario_defs forecast_defs forecast_spec_def Let_def)

subsection \<open>The lines of the final plan\<close>

lemma line_after_apply_refl [simp]: "line_after_apply r r"
  by (simp add: line_after_apply_def)

lemma line_after_apply_trans:
  "line_after_apply l m \<Longrightarrow> line_after_apply m r \<Longrightarrow> line_after_apply l r"
  by (auto simp: line_after_apply_def)

lemma line_after_apply_qty_le: "line_after_apply l r \<Longrightarrow> suggested_order_qty l \<le> suggested_order_qty r"
  by (auto simp: line_after_apply_def)

lemma line_after_price_row [simp]: "line_after_apply (price_row idx r) r"
  by (simp add: line_after_apply_def price_row_def Let_def)

lemma line_after_within_row [simp]: "line_after_apply (within_row r) r"
  by (simp add: line_after_apply_def within_row_def)

lemma line_after_keep_row [simp]: "line_after_apply (keep_row r) r"
  by (simp add: line_after_apply_def keep_row_def)

lemma line_after_drop_row: "0 < suggested_order_qty r \<Longrightarrow> line_after_apply (drop_row r) r"
  by (simp add: line_after_apply_def drop_row_def)

lemma set_drop_loop:
  "x \<in> set (drop_loop e s) \<Longrightarrow> \<exists>y\<in>set s. line_after_apply x y"
proof (induction s arbitrary: e)
  case Nil
  then show ?case by simp
next
  case (Cons r s)
  show ?case
  proof (cases "e \<le> 0")
    case True
    with Cons.prems show ?thesis
      by (auto intro: bexI [of _ x])
  next
    case pos: False
    show ?thesis
    proof (cases "suggested_order_qty r \<le> 0")
      case True
      with pos Cons.prems have "x = r \<or> x \<in> set (drop_loop e s)"
        by simp
      then show ?thesis
        using Cons.IH by auto
    next
      case False
      with pos Cons.prems have "x = drop_row r \<or> x \<in> set (drop_loop (e - get_line_cost r) s)"
        by simp
      then show ?thesis
        using Cons.IH False by (auto simp: line_after_drop_row)
    qed
  qed
qed

lemma apply_line_origin:
  assumes "l \<in> set (BudgetAgent_apply b plan ps)"
  shows "\<exists>r\<in>set plan. line_after_apply l r"
proof (cases "total_cost (priced ps plan) \<le> b")
  case True
  with assms obtain r where "r \<in> set plan" and "l = within_row (price_row (price_index ps) r)"
    by (auto simp: apply_within priced_def)
  then show ?thesis
    by (auto intro: line_after_apply_trans [OF line_after_within_row line_after_price_row])
next
  case False
  with assms obtain x where x: "x \<in> set (drop_loop (total_cost (priced ps plan) - b)
        (sort_key avg_weekly_sales (priced ps plan)))" and l: "l = keep_row x"
    by (auto simp: apply_over)
  from set_drop_loop [OF x] obtain y where y: "y \<in> set (priced ps plan)"
    and xy: "line_after_apply x y"
    by auto
  from y obtain r where r: "r \<in> set plan" and yr: "y = price_row (price_index ps) r"
    by (auto simp: priced_def)
  have "line_after_apply l x"
    using l by simp
  then have "line_after_apply l r"
    using xy yr by (blast intro: line_after_apply_trans line_after_price_row)
  with r show ?thesis ..
qed

lemma pid_drop_row [simp]: "pl_product_id (drop_row r) = pl_product_id r"
  by (simp add: drop_row_def)

lemma pid_keep_row [simp]: "pl_product_id (keep_row r) = pl_product_id r"
  by (simp add: keep_row_def)

lemma pid_within_row [simp]: "pl_product_id (within_row r) = pl_product_id r"
  by (simp add: within_row_def)

lemma pid_price_row [simp]: "pl_product_id (price_row idx r) = pl_product_id r"
  by (simp add: price_row_def Let_def)

lemma map_pid_priced [simp]: "map pl_product_id (priced ps plan) = map pl_product_id plan"
  by (simp add: priced_def comp_def)

lemma length_apply [simp]: "length (BudgetAgent_apply b plan ps) = length plan"
  by (cases "total_cost (priced ps plan) \<le> b") (simp_all add: apply_within apply_over)

lemma mset_pid_apply:
  "mset (map pl_product_id (BudgetAgent_apply b plan ps)) = mset (map pl_product_id plan)"
proof (cases "total_cost (priced ps plan) \<le> b")
  case True
  then show ?thesis
    by (simp add: apply_within comp_def)
next
  case False
  let ?s = "sort_key avg_weekly_sales (priced ps plan)"
  have "map pl_product_id (BudgetAgent_apply b plan ps) = map pl_product_id ?s"
    using False by (simp add: apply_over comp_def map_drop_loop [of pl_product_id])
  also have "mset \<dots> = mset (map pl_product_id (priced ps plan))"
    by (simp only: mset_map mset_sort)
  finally show ?thesis
    by simp
qed

lemma map_pid_build_plan:
  "map pl_product_id (ReplenishmentAgent_build_plan sf st fc) = map product_id (products st)"
  by (simp add: ReplenishmentAgent_build_plan_def comp_def pid_plan_row)

lemma pipeline_Inr:
  "run_agent_pipeline mw sf b st = Inr final \<longleftrightarrow>
     (\<exists>fc. ForecastAgent_forecast mw st = Inr fc \<and>
           final = BudgetAgent_apply b (ReplenishmentAgent_build_plan sf st fc) (products st))"
  by (auto simp: run_agent_pipeline_def split: sum.splits)

lemma pipeline_returns:
  "1 \<le> mw \<Longrightarrow> \<exists>final. run_agent_pipeline mw sf b st = Inr final"
  by (simp add: pipeline_Inr forecast_positive_horizon)

text \<open>
  Claim C8. The plan returned by the pipeline has exactly one line per product of the
  snapshot, whatever its order: \<^verbatim>\<open>build_plan\<close> emits the lines in the order of the
  products, and \<^verbatim>\<open>apply\<close> returns a list of the same length with the same product ids,
  each as often as before. With a horizon of at least one week the pipeline returns.
\<close>

theorem pipeline_coverage:
  "(1 \<le> max_weeks \<longrightarrow> (\<exists>final. run_agent_pipeline max_weeks sf b st = Inr final)) \<and>
   (\<forall>final. run_agent_pipeline max_weeks sf b st = Inr final \<longrightarrow>
      length final = length (products st) \<and>
      mset (map pl_product_id final) = mset (map product_id (products st))) \<and>
   map pl_product_id (ReplenishmentAgent_build_plan sf st fc) = map product_id (products st) \<and>
   length (BudgetAgent_apply b plan ps) = length plan \<and>
   mset (map pl_product_id (BudgetAgent_apply b plan ps)) = mset (map pl_product_id plan)"
proof (intro conjI allI impI)
  assume "1 \<le> max_weeks"
  then show "\<exists>final. run_agent_pipeline max_weeks sf b st = Inr final"
    by (rule pipeline_returns)
next
  fix final
  assume "run_agent_pipeline max_weeks sf b st = Inr final"
  then obtain fc' where
    final: "final = BudgetAgent_apply b (ReplenishmentAgent_build_plan sf st fc') (products st)"
    unfolding pipeline_Inr by blast
  show "length final = length (products st)"
    unfolding final by simp
  show "mset (map pl_product_id final) = mset (map product_id (products st))"
    unfolding final by (simp only: mset_pid_apply map_pid_build_plan)
next
  show "map pl_product_id (ReplenishmentAgent_build_plan sf st fc) = map product_id (products st)"
    by (rule map_pid_build_plan)
  show "length (BudgetAgent_apply b plan ps) = length plan"
    by (rule length_apply)
  show "mset (map pl_product_id (BudgetAgent_apply b plan ps)) = mset (map pl_product_id plan)"
    by (rule mset_pid_apply)
qed

lemma scenario3_forecast: "ForecastAgent_forecast 4 scenario3 = Inr [1 \<mapsto> 20, 2 \<mapsto> 10]"
  by (simp add: scenario3_def scenario_defs forecast_defs Let_def)

lemma scenario3_pipeline_pids:
  "map pl_product_id
     (BudgetAgent_apply 40000
        (ReplenishmentAgent_build_plan (3 / 2) scenario3 [1 \<mapsto> 20, 2 \<mapsto> 10])
        (products scenario3)) = [2, 1]"
  by (simp add: scenario3_def scenario_defs build_plan_defs apply_defs)

theorem pipeline_coverage_witness:
  "(\<exists>final. run_agent_pipeline 4 (3 / 2) 40000 scenario3 = Inr final \<and>
      map pl_product_id final = [2, 1] \<and>
      mset (map pl_product_id final) = mset (map product_id (products scenario3))) \<and>
   map product_id (products scenario3) = [1, 2]"
proof -
  let ?final = "BudgetAgent_apply 40000
        (ReplenishmentAgent_build_plan (3 / 2) scenario3 [1 \<mapsto> 20, 2 \<mapsto> 10])
        (products scenario3)"
  have run: "run_agent_pipeline 4 (3 / 2) 40000 scenario3 = Inr ?final"
    by (simp add: run_agent_pipeline_def scenario3_forecast)
  have ids: "map product_id (products scenario3) = [1, 2]"
    by (simp add: scenario3_def scenario_defs)
  from pipeline_coverage [of 4 "3 / 2" 40000 scenario3] run
  have m: "mset (map pl_product_id ?final) = mset (map product_id (products scenario3))"
    by blast
  show ?thesis
  proof (intro conjI exI)
    show "run_agent_pipeline 4 (3 / 2) 40000 scenario3 = Inr ?final"
      by (rule run)
    show "map pl_product_id ?final = [2, 1]"
      by (rule scenario3_pipeline_pids)
    show "mset (map pl_product_id ?final) = mset (map product_id (products scenario3))"
      by (rule m)
    show "map product_id (products scenario3) = [1, 2]"
      by (rule ids)
  qed
qed

subsection \<open>Signs of quantities and costs\<close>

lemma apply_qty_nonneg:
  assumes "\<forall>r\<in>set plan. 0 \<le> suggested_order_qty r"
    and "l \<in> set (BudgetAgent_apply b plan ps)"
  shows "0 \<le> suggested_order_qty l"
proof -
  from apply_line_origin [OF assms(2)] obtain r where "r \<in> set plan" and "line_after_apply l r"
    by blast
  with assms(1) show ?thesis
    by (auto simp: line_after_apply_def)
qed

lemma fold_price_nonneg:
  assumes "\<forall>p\<in>set ps. 0 \<le> get_cost_price p"
    and "\<forall>c. m pid = Some c \<longrightarrow> 0 \<le> c"
    and "fold (\<lambda>p m. m(product_id p \<mapsto> get_cost_price p)) ps m pid = Some c"
  shows "0 \<le> c"
  using assms
proof (induction ps arbitrary: m)
  case Nil
  then show ?case by simp
next
  case (Cons p ps)
  have "\<forall>c. (m(product_id p \<mapsto> get_cost_price p)) pid = Some c \<longrightarrow> 0 \<le> c"
    using Cons.prems(1,2) by auto
  with Cons.IH [of "m(product_id p \<mapsto> get_cost_price p)"] Cons.prems show ?case
    by simp
qed

lemma get_price_nonneg:
  "\<forall>p\<in>set ps. 0 \<le> get_cost_price p \<Longrightarrow> 0 \<le> get_price (price_index ps) pid"
  unfolding get_price_def price_index_def
  by (auto split: option.splits dest: fold_price_nonneg [rotated 2])

lemma priced_cost_nonneg:
  assumes "\<forall>p\<in>set ps. 0 \<le> get_cost_price p"
    and "\<forall>r\<in>set plan. 0 \<le> suggested_order_qty r"
  shows "\<forall>r\<in>set (priced ps plan). 0 \<le> get_line_cost r"
  using assms by (auto simp: priced_def get_price_nonneg)

lemma drop_loop_cost_nonneg:
  "\<forall>r\<in>set s. 0 \<le> get_line_cost r \<Longrightarrow> \<forall>r\<in>set (drop_loop e s). 0 \<le> get_line_cost r"
  by (induction s arbitrary: e) auto

lemma apply_cost_nonneg:
  assumes "\<forall>p\<in>set ps. 0 \<le> get_cost_price p"
    and "\<forall>r\<in>set plan. 0 \<le> suggested_order_qty r"
  shows "\<forall>l\<in>set (BudgetAgent_apply b plan ps). 0 \<le> get_line_cost l"
proof (cases "total_cost (priced ps plan) \<le> b")
  case True
  with priced_cost_nonneg [OF assms] show ?thesis
    by (auto simp: apply_within)
next
  case False
  have "\<forall>r\<in>set (sort_key avg_weekly_sales (priced ps plan)). 0 \<le> get_line_cost r"
    using priced_cost_nonneg [OF assms] by simp
  from drop_loop_cost_nonneg [OF this] False show ?thesis
    by (auto simp: apply_over)
qed

lemma get_line_cost_Some: "line_cost l \<noteq> None \<Longrightarrow> line_cost l = Some (get_line_cost l)"
  by (auto simp: get_line_cost_def)

text \<open>
  Claim C9, as the code has it. In the final plan every \<open>suggested_order_qty\<close> is at
  least 0, and every line carries a \<open>line_cost\<close>, which is at least 0 when no product of
  the catalog has a negative cost price. With a horizon of at least one week the
  pipeline returns.
\<close>

theorem pipeline_nonneg:
  "(1 \<le> max_weeks \<longrightarrow> (\<exists>final. run_agent_pipeline max_weeks sf b st = Inr final)) \<and>
   (\<forall>final. run_agent_pipeline max_weeks sf b st = Inr final \<longrightarrow>
      (\<forall>l\<in>set final.
         0 \<le> suggested_order_qty l \<and>
         (\<exists>c. line_cost l = Some c \<and>
              ((\<forall>p\<in>set (products st). 0 \<le> get_cost_price p) \<longrightarrow> 0 \<le> c))))"
proof (intro conjI allI impI ballI)
  assume "1 \<le> max_weeks"
  then show "\<exists>final. run_agent_pipeline max_weeks sf b st = Inr final"
    by (rule pipeline_returns)
next
  fix final l
  assume "run_agent_pipeline max_weeks sf b st = Inr final" and l: "l \<in> set final"
  then obtain fc where
    final: "final = BudgetAgent_apply b (ReplenishmentAgent_build_plan sf st fc) (products st)"
    unfolding pipeline_Inr by blast
  let ?plan = "ReplenishmentAgent_build_plan sf st fc"
  have qty: "\<forall>r\<in>set ?plan. 0 \<le> suggested_order_qty r"
    by (rule build_plan_qty_nonneg)
  from apply_qty_nonneg [OF qty] l show "0 \<le> suggested_order_qty l"
    unfolding final by blast
  have "line_cost l \<noteq> None"
    using apply_line_cost_set l unfolding final by blast
  then have some: "line_cost l = Some (get_line_cost l)"
    by (rule get_line_cost_Some)
  have "(\<forall>p\<in>set (products st). 0 \<le> get_cost_price p) \<longrightarrow> 0 \<le> get_line_cost l"
    using apply_cost_nonneg [OF _ qty] l unfolding final by blast
  with some show "\<exists>c. line_cost l = Some c \<and>
      ((\<forall>p\<in>set (products st). 0 \<le> get_cost_price p) \<longrightarrow> 0 \<le> c)"
    by blast
qed

lemma scenario1_forecast: "ForecastAgent_forecast 4 scenario1 = Inr [1 \<mapsto> 0]"
  by (simp add: scenario1_def scenario_defs forecast_defs Let_def)

lemma scenario1_pipeline:
  "run_agent_pipeline 4 (3 / 2) 25000 scenario1 =
     Inr [\<lparr> pl_product_id = 1, pl_name = ''item'', avg_weekly_sales = 0, current_stock = 0,
            forecast_next_week = 0, suggested_order_qty = 10, reason = reason_text 0 0 10,
            unit_cost = Some 5, line_cost = Some 50,
            budget_note = Some ''Within weekly budget'' \<rparr>]"
  by (simp add: run_agent_pipeline_def scenario1_forecast)
     (simp add: scenario1_def scenario_defs build_plan_defs apply_defs Let_def)

theorem pipeline_nonneg_witness:
  "\<exists>final. run_agent_pipeline 4 (3 / 2) 25000 scenario1 = Inr final \<and>
     map suggested_order_qty final = [10] \<and> map line_cost final = [Some 50] \<and>
     map get_cost_price (products scenario1) = [5]"
proof -
  have "map get_cost_price (products scenario1) = [5]"
    by (simp add: scenario1_def scenario_defs get_cost_price_def)
  with pipeline_nonneg [of 4 "3 / 2" 25000 scenario1] scenario1_pipeline show ?thesis
    by simp
qed

text \<open>A product with cost price -5, a minimum stock of 10, no stock and no history: 10
  units are ordered at a line cost of -50.\<close>

theorem pipeline_negative_cost_counterexample:
  "run_agent_pipeline 4 (3 / 2) 25000 scenario_negative_cost =
     Inr [\<lparr> pl_product_id = 1, pl_name = ''item'', avg_weekly_sales = 0, current_stock = 0,
            forecast_next_week = 0, suggested_order_qty = 10, reason = reason_text 0 0 10,
            unit_cost = Some (- 5), line_cost = Some (- 50),
            budget_note = Some ''Within weekly budget'' \<rparr>] \<and>
   (- 50 :: real) < 0"
proof -
  have "ForecastAgent_forecast 4 scenario_negative_cost = Inr [1 \<mapsto> 0]"
    by (simp add: scenario_negative_cost_def scenario_defs forecast_defs Let_def)
  then show ?thesis
    by (simp add: run_agent_pipeline_def)
       (simp add: scenario_negative_cost_def scenario_defs build_plan_defs apply_defs Let_def)
qed

text \<open>
  Claim C2. In the final plan every line of a product whose average weekly sales, as
  forecast, are below 1 and whose stock on hand is positive has
  \<open>suggested_order_qty = 0\<close>: \<^verbatim>\<open>build_plan\<close> sets the quantity of such a product to 0, and
  every line \<^verbatim>\<open>apply\<close> returns is a line of its input whose quantity is the same or has
  become 0, never larger. With a horizon of at least one week the pipeline returns.
\<close>

theorem pipeline_slow_mover_suppressed:
  "(1 \<le> max_weeks \<longrightarrow> (\<exists>final. run_agent_pipeline max_weeks sf b st = Inr final)) \<and>
   (\<forall>fc final.
      ForecastAgent_forecast max_weeks st = Inr fc \<and>
      run_agent_pipeline max_weeks sf b st = Inr final \<longrightarrow>
      (\<forall>l\<in>set final.
         get_forecast fc (pl_product_id l) < 1 \<and> 0 < get_current_stock st (pl_product_id l) \<longrightarrow>
         suggested_order_qty l = 0)) \<and>
   (\<forall>i<length (products st).
      get_forecast fc' (product_id (products st ! i)) < 1 \<and>
      0 < get_current_stock st (product_id (products st ! i)) \<longrightarrow>
      suggested_order_qty (ReplenishmentAgent_build_plan sf st fc' ! i) = 0) \<and>
   (\<forall>l\<in>set (BudgetAgent_apply b plan ps).
      \<exists>r\<in>set plan. line_after_apply l r \<and> suggested_order_qty l \<le> suggested_order_qty r)"
proof (intro conjI allI impI ballI)
  assume "1 \<le> max_weeks"
  then show "\<exists>final. run_agent_pipeline max_weeks sf b st = Inr final"
    by (rule pipeline_returns)
next
  fix fc final l
  assume run: "ForecastAgent_forecast max_weeks st = Inr fc \<and>
      run_agent_pipeline max_weeks sf b st = Inr final"
    and l: "l \<in> set final"
    and slow: "get_forecast fc (pl_product_id l) < 1 \<and> 0 < get_current_stock st (pl_product_id l)"
  from run have
    final: "final = BudgetAgent_apply b (ReplenishmentAgent_build_plan sf st fc) (products st)"
    by (auto simp: run_agent_pipeline_def)
  from apply_line_origin l obtain r where
    r: "r \<in> set (ReplenishmentAgent_build_plan sf st fc)" and lr: "line_after_apply l r"
    unfolding final by blast
  from r obtain p where r_def: "r = plan_row sf st fc p"
    by (auto simp: ReplenishmentAgent_build_plan_def)
  have "pl_product_id l = product_id p"
    using lr by (simp add: line_after_apply_def r_def pid_plan_row)
  with slow have "slow_moving (get_forecast fc (product_id p)) (get_current_stock st (product_id p))"
    by (simp add: slow_moving_def)
  then have "suggested_order_qty r = 0"
    by (simp add: r_def qty_plan_row order_qty_slow)
  with lr show "suggested_order_qty l = 0"
    by (auto simp: line_after_apply_def)
next
  fix i
  assume "i < length (products st)"
    and "get_forecast fc' (product_id (products st ! i)) < 1 \<and>
      0 < get_current_stock st (product_id (products st ! i))"
  then show "suggested_order_qty (ReplenishmentAgent_build_plan sf st fc' ! i) = 0"
    by (simp add: nth_build_plan qty_plan_row order_qty_slow slow_moving_def)
next
  fix l
  assume "l \<in> set (BudgetAgent_apply b plan ps)"
  from apply_line_origin [OF this]
  show "\<exists>r\<in>set plan. line_after_apply l r \<and> suggested_order_qty l \<le> suggested_order_qty r"
    by (blast intro: line_after_apply_qty_le)
qed

lemma scenario2_forecast: "ForecastAgent_forecast 4 scenario2 = Inr [1 \<mapsto> 1 / 2]"
  by (simp add: scenario2_def scenario_defs forecast_defs Let_def)

lemma scenario2_pipeline:
  "run_agent_pipeline 4 (3 / 2) 25000 scenario2 =
     Inr [\<lparr> pl_product_id = 1, pl_name = ''item'', avg_weekly_sales = 1 / 2, current_stock = 3,
            forecast_next_week = 1 / 2, suggested_order_qty = 0,
            reason = reason_text (1 / 2) 3 10,
            unit_cost = Some 5, line_cost = Some 0,
            budget_note = Some ''Within weekly budget'' \<rparr>]"
  by (simp add: run_agent_pipeline_def scenario2_forecast)
     (simp add: scenario2_def scenario_defs build_plan_defs apply_defs Let_def)

theorem pipeline_slow_mover_suppressed_witness:
  "ForecastAgent_forecast 4 scenario2 = Inr [1 \<mapsto> 1 / 2] \<and>
   get_forecast [1 \<mapsto> 1 / 2] 1 < 1 \<and>
   0 < get_current_stock scenario2 1 \<and>
   order_qty_spec (required_stock_spec (3 / 2) 10 100 (1 / 2)) 3 = 7 \<and>
   (\<exists>final. run_agent_pipeline 4 (3 / 2) 25000 scenario2 = Inr final \<and>
      map pl_product_id final = [1] \<and> map suggested_order_qty final = [0])"
proof -
  have a: "get_forecast [1 \<mapsto> 1 / 2] 1 < 1"
    by (simp add: get_forecast_def)
  have b: "0 < get_current_stock scenario2 1"
    by (simp add: scenario2_def scenario_defs get_current_stock_def)
  have c: "order_qty_spec (required_stock_spec (3 / 2) 10 100 (1 / 2)) 3 = 7"
    by (simp add: order_qty_spec_def required_stock_spec_def py_round_def)
  from pipeline_slow_mover_suppressed [of 4 "3 / 2" 25000 scenario2]
    scenario2_forecast scenario2_pipeline a b c
  show ?thesis
    by simp
qed

subsection \<open>The rationale text\<close>

lemma is_digit_digit_char [simp]: "is_digit (digit_char n)"
proof -
  have "n mod 10 < length ''0123456789''"
    by simp
  then show ?thesis
    unfolding is_digit_def digit_char_def by (rule nth_mem)
qed

lemma str_nat_digits: "\<forall>c\<in>set (str_nat n). is_digit c"
proof (induction n rule: str_nat.induct)
  case (1 n)
  show ?case
  proof (cases "n < 10")
    case True
    then show ?thesis
      by (subst str_nat.simps) simp
  next
    case False
    with 1 show ?thesis
      by (subst str_nat.simps) simp
  qed
qed

lemma point_not_digit [simp]: "\<not> is_digit CHR ''.''"
  by (simp add: is_digit_def)

lemma minus_not_point: "CHR ''-'' \<noteq> CHR ''.''"
  by simp

lemma format_fixed_one_decimal:
  "\<exists>ip c. format_fixed 1 x = ip @ [CHR ''.'', c] \<and> is_digit c \<and> CHR ''.'' \<notin> set ip"
proof -
  let ?n = "nat (py_round (\<bar>x\<bar> * 10 ^ 1))"
  let ?ip = "(if x < 0 then ''-'' else '''') @ str_nat (?n div 10 ^ 1)"
  have "format_fixed 1 x = ?ip @ [CHR ''.'', digit_char (?n mod 10 ^ 1)]"
    by (simp add: format_fixed_def frac_digits_def Let_def)
  moreover have "CHR ''.'' \<notin> set ?ip"
    using str_nat_digits [of "?n div 10 ^ 1"] point_not_digit by auto
  ultimately show ?thesis
    using is_digit_digit_char by blast
qed

lemma reason_plan_row:
  "reason (plan_row sf st fc p) =
     reason_text (get_forecast fc (product_id p)) (get_current_stock st (product_id p))
       (required_stock sf (get_min_stock p) (get_max_stock p) (get_forecast fc (product_id p)))"
  by (simp add: plan_row_def Let_def)

lemma reason_text_not_slow:
  "\<not> slow_moving a c \<Longrightarrow> reason_text a c r = rationale_sentence 1 a c r"
  by (simp add: reason_text_def rationale_sentence_def)

text \<open>
  Claim C7, as the code has it. For a product that is not classified slow-moving, the
  rationale of \<^verbatim>\<open>build_plan\<close> is the sentence reporting the forecast and the target stock
  with one decimal (a point followed by exactly one digit) and the current stock as an
  integer.
\<close>

theorem build_plan_rationale:
  assumes "i < length (products st)"
    and "\<not> slow_moving (get_forecast fc (product_id (products st ! i)))
             (get_current_stock st (product_id (products st ! i)))"
  shows "(let p = products st ! i;
              forecast = get_forecast fc (product_id p);
              currentStock = get_current_stock st (product_id p);
              targetStock = required_stock sf (get_min_stock p) (get_max_stock p) forecast
          in reason (ReplenishmentAgent_build_plan sf st fc ! i) =
               ''Avg sales '' @ approx_sign @ '' '' @ format_fixed 1 forecast @
               ''/week, current stock = '' @ str_int currentStock @
               '', target stock '' @ approx_sign @ '' '' @ format_fixed 1 targetStock @ ''.'') \<and>
         (\<exists>ip c. format_fixed 1 x = ip @ [CHR ''.'', c] \<and> is_digit c \<and> CHR ''.'' \<notin> set ip)"
  using assms format_fixed_one_decimal [of x]
  by (simp add: Let_def nth_build_plan reason_plan_row reason_text_not_slow rationale_sentence_def)

lemma format_fixed_examples:
  "format_fixed 1 (9 / 4) = ''2.2''" "format_fixed 1 (27 / 8) = ''3.4''"
  "format_fixed 2 (9 / 4) = ''2.25''" "format_fixed 2 (27 / 8) = ''3.38''"
  by (simp_all add: format_fixed_def py_round_def frac_digits_def digit_char_def str_nat.simps
      upt_rec)

lemmas format_fixed_examples_Suc = format_fixed_examples [unfolded One_nat_def]

lemma scenario_fraction_reason:
  "reason (ReplenishmentAgent_build_plan (3 / 2) scenario_fraction [1 \<mapsto> 9 / 4] ! 0) =
     ''Avg sales '' @ approx_sign @ '' 2.2/week, current stock = 0, target stock '' @
     approx_sign @ '' 3.4.''"
proof -
  have "reason (ReplenishmentAgent_build_plan (3 / 2) scenario_fraction [1 \<mapsto> 9 / 4] ! 0) =
          reason_text (9 / 4) 0 (27 / 8)"
    by (simp add: scenario_fraction_def scenario_defs build_plan_defs Let_def)
  also have "\<dots> = ''Avg sales '' @ approx_sign @ '' 2.2/week, current stock = 0, target stock '' @
     approx_sign @ '' 3.4.''"
    by (simp add: reason_text_def slow_moving_def format_fixed_examples
        format_fixed_examples_Suc str_int_def str_nat.simps digit_char_def)
  finally show ?thesis .
qed

theorem build_plan_rationale_witness:
  "0 < length (products scenario_fraction) \<and>
   \<not> slow_moving (get_forecast [1 \<mapsto> 9 / 4] (product_id (products scenario_fraction ! 0)))
       (get_current_stock scenario_fraction (product_id (products scenario_fraction ! 0))) \<and>
   reason (ReplenishmentAgent_build_plan (3 / 2) scenario_fraction [1 \<mapsto> 9 / 4] ! 0) =
     ''Avg sales '' @ approx_sign @ '' '' @ format_fixed 1 (9 / 4) @
     ''/week, current stock = '' @ str_int 0 @
     '', target stock '' @ approx_sign @ '' '' @ format_fixed 1 (27 / 8) @ ''.''"
  using build_plan_rationale [of 0 scenario_fraction "[1 \<mapsto> 9 / 4]" "3 / 2" 0]
  by (simp add: scenario_fraction_def scenario_defs get_forecast_def get_current_stock_def
      get_min_stock_def get_max_stock_def slow_moving_def required_stock_def Let_def)

text \<open>With a forecast of 2.25 and a target of 3.375 the rationale reads 2.2 and 3.4; the
  sentence with two decimals would read 2.25 and 3.38.\<close>

theorem build_plan_rationale_counterexample:
  "reason (ReplenishmentAgent_build_plan (3 / 2) scenario_fraction [1 \<mapsto> 9 / 4] ! 0) =
     ''Avg sales '' @ approx_sign @ '' 2.2/week, current stock = 0, target stock '' @
     approx_sign @ '' 3.4.'' \<and>
   reason (ReplenishmentAgent_build_plan (3 / 2) scenario_fraction [1 \<mapsto> 9 / 4] ! 0) \<noteq>
     rationale_sentence 2 (9 / 4) 0 (27 / 8) \<and>
   rationale_sentence 2 (9 / 4) 0 (27 / 8) =
     ''Avg sales '' @ approx_sign @ '' 2.25/week, current stock = 0, target stock '' @
     approx_sign @ '' 3.38.'' \<and>
   get_forecast [1 \<mapsto> 9 / 4] 1 = 9 / 4 \<and>
   required_stock (3 / 2) 0 100 (9 / 4) = 27 / 8 \<and>
   \<not> slow_moving (9 / 4) 0"
proof -
  have two: "rationale_sentence 2 (9 / 4) 0 (27 / 8) =
     ''Avg sales '' @ approx_sign @ '' 2.25/week, current stock = 0, target stock '' @
     approx_sign @ '' 3.38.''"
    by (simp add: rationale_sentence_def format_fixed_examples format_fixed_examples_Suc
        str_int_def str_nat.simps digit_char_def)
  have "required_stock (3 / 2) 0 100 (9 / 4) = 27 / 8"
    by (simp add: required_stock_def Let_def)
  then show ?thesis
    unfolding two scenario_fraction_reason
    by (simp add: get_forecast_def slow_moving_def approx_sign_def)
qed

subsection \<open>Rounding to binary64\<close>

lemma binade_numeral:
  "binade (numeral k) x =
     (if x < 1 then binade (pred_numeral k) (2 * x) - 1
      else if 2 \<le> x then binade (pred_numeral k) (x / 2) + 1
      else 0)"
  by (simp add: numeral_eq_Suc)

lemmas b64_eval = b64_def binade_numeral pow2_def py_round_def Let_def

text \<open>Known values: 1 and 25000 are binary64 numbers, 0.1 is not, and the two odd
  integers next to \<open>2\<^sup>5\<^sup>3\<close> round to their even neighbours.\<close>

lemma b64_examples:
  "b64 1 = 1"
  "b64 25000 = 25000"
  "b64 (1 / 10) = 3602879701896397 / 36028797018963968"
  "b64 9007199254740993 = 9007199254740992"
  "b64 9007199254740995 = 9007199254740996"
  by (simp_all add: b64_eval)

lemma pow2_pos [simp]: "0 < pow2 k"
  by (simp add: pow2_def)

lemma pow2_nonzero: "pow2 k \<noteq> 0"
  by (simp add: pow2_def)

lemma pow2_add1: "pow2 (k + 1) = 2 * pow2 k"
proof (cases "0 \<le> k")
  case True
  then show ?thesis
    by (simp add: pow2_def nat_add_distrib)
next
  case False
  then have "nat (- k) = Suc (nat (- (k + 1)))"
    by simp
  with False show ?thesis
    by (auto simp: pow2_def)
qed

lemma pow2_diff1: "pow2 (k - 1) = pow2 k / 2"
  using pow2_add1 [of "k - 1"] by simp

lemma pow2_ge_1: "0 \<le> k \<Longrightarrow> 1 \<le> pow2 k"
  by (simp add: pow2_def)

lemma pow2_le_1: "k \<le> 0 \<Longrightarrow> pow2 k \<le> 1"
  by (simp add: pow2_def)

text \<open>With enough steps for the magnitude of \<open>x\<close>, \<open>binade\<close> returns the exponent of the
  binade of \<open>x\<close>; 1100 steps cover every binary64 number.\<close>

lemma binade_bounds:
  "pow2 (- int n) \<le> x \<Longrightarrow> x < pow2 (int n + 1) \<Longrightarrow>
   pow2 (binade n x) \<le> x \<and> x < 2 * pow2 (binade n x)"
proof (induction n arbitrary: x)
  case 0
  then show ?case
    by (simp add: pow2_def)
next
  case (Suc n)
  have lo: "pow2 (- int n) = 2 * pow2 (- int (Suc n))"
    using pow2_add1 [of "- int (Suc n)"] by simp
  have hi: "pow2 (int (Suc n) + 1) = 2 * pow2 (int n + 1)"
    using pow2_add1 [of "int n + 1"] by (simp add: add.commute)
  show ?case
  proof (cases "x < 1")
    case True
    have "pow2 (- int n) \<le> 2 * x"
      using Suc.prems(1) lo by simp
    moreover have "2 * x < pow2 (int n + 1)"
      using True pow2_add1 [of "int n"] pow2_ge_1 [of "int n"] by simp
    ultimately have "pow2 (binade n (2 * x)) \<le> 2 * x \<and> 2 * x < 2 * pow2 (binade n (2 * x))"
      by (rule Suc.IH)
    with True show ?thesis
      by (simp add: pow2_diff1)
  next
    case False
    show ?thesis
    proof (cases "2 \<le> x")
      case True
      have "pow2 (- int n) \<le> x / 2"
        using True pow2_le_1 [of "- int n"] by simp
      moreover have "x / 2 < pow2 (int n + 1)"
        using Suc.prems(2) hi by simp
      ultimately have "pow2 (binade n (x / 2)) \<le> x / 2 \<and> x / 2 < 2 * pow2 (binade n (x / 2))"
        by (rule Suc.IH)
      with True False show ?thesis
        by (simp add: pow2_add1)
    next
      case False
      with \<open>\<not> x < 1\<close> show ?thesis
        by (simp add: pow2_def)
    qed
  qed
qed

text \<open>\<open>b64 x\<close> is an integer multiple of the unit of its binade, at most half a unit away
  from \<open>x\<close>.\<close>

lemma b64_nearest:
  assumes "x \<noteq> 0"
  shows "\<exists>m::int. b64 x = of_int m * pow2 (max (- 1022) (binade 1100 \<bar>x\<bar>) - 52) \<and>
           \<bar>b64 x - x\<bar> \<le> pow2 (max (- 1022) (binade 1100 \<bar>x\<bar>) - 52) / 2"
proof -
  define u where "u = pow2 (max (- 1022) (binade 1100 \<bar>x\<bar>) - 52)"
  define a where "a = real_of_int (py_round (x / u))"
  have u: "0 < u"
    unfolding u_def by (rule pow2_pos)
  have eq: "b64 x = a * u"
    using assms by (simp add: b64_def Let_def u_def a_def)
  have "\<bar>a - x / u\<bar> \<le> 1 / 2"
    unfolding a_def using py_round_lower [of "x / u"] py_round_upper [of "x / u"] by linarith
  then have "\<bar>a - x / u\<bar> * u \<le> 1 / 2 * u"
    using u by (simp only: mult_le_cancel_right_pos)
  moreover have "\<bar>a - x / u\<bar> * u = \<bar>(a - x / u) * u\<bar>"
    using u by (simp only: abs_mult abs_of_pos)
  moreover have "(a - x / u) * u = a * u - x"
    using u by (simp add: left_diff_distrib)
  ultimately have "\<bar>a * u - x\<bar> \<le> u / 2"
    by simp
  then have "b64 x = real_of_int (py_round (x / u)) * u \<and> \<bar>b64 x - x\<bar> \<le> u / 2"
    unfolding eq a_def by simp
  then show ?thesis
    unfolding u_def by (rule exI)
qed

subsection \<open>The budget in binary64\<close>

lemma scenario_rounding_forecast:
  "ForecastAgent_forecast 4 scenario_rounding = Inr [1 \<mapsto> 0, 2 \<mapsto> 1, 3 \<mapsto> 2]"
  by (simp add: scenario_rounding_def scenario_defs forecast_defs Let_def)

lemma scenario_rounding_plan:
  "map (\<lambda>r. (pl_product_id r, avg_weekly_sales r, suggested_order_qty r))
     (ReplenishmentAgent_build_plan (3 / 2) scenario_rounding [1 \<mapsto> 0, 2 \<mapsto> 1, 3 \<mapsto> 2]) =
   [(1, 0, 35), (2, 1, 2), (3, 2, 3)]"
  by (simp add: scenario_rounding_def scenario_defs build_plan_defs Let_def)

text \<open>The steps of \<^verbatim>\<open>apply\<close> on that plan: the three prices as floats, the three line
  costs (108750.25, 96.88 and 24903.120000000003 as Python prints them), their total
  133750.25, the excess 108750.25 over the budget of 25000, and the excess 0.0 that is left
  once the first line is dropped.\<close>

lemma scenario_rounding_steps:
  "b64 (310715 / 100) = 6832695108488397 / 2199023255552"
  "b64 (4844 / 100) = 852165491991511 / 17592186044416"
  "b64 (830104 / 100) = 1140886250329211 / 137438953472"
  "b64 (6832695108488397 / 2199023255552 * b64 35) = 435001 / 4"
  "b64 (852165491991511 / 17592186044416 * b64 2) = 852165491991511 / 8796093022208"
  "b64 (1140886250329211 / 137438953472 * b64 3) = 3422658750987633 / 137438953472"
  "sum_b64 [435001 / 4, 852165491991511 / 8796093022208, 3422658750987633 / 137438953472]
     = 535001 / 4"
  "b64 (435001 / 4 + 852165491991511 / 8796093022208 + 3422658750987633 / 137438953472)
     = 535001 / 4"
  "b64 (535001 / 4 - 25000) = 435001 / 4"
  "b64 (435001 / 4 - 435001 / 4) = 0"
  by (simp_all add: sum_b64_def b64_eval)

lemma scenario_rounding_apply:
  "map (\<lambda>l. (pl_product_id l, suggested_order_qty l, line_cost l, budget_note l))
     (BudgetAgent_apply_b64 25000
        (ReplenishmentAgent_build_plan (3 / 2) scenario_rounding [1 \<mapsto> 0, 2 \<mapsto> 1, 3 \<mapsto> 2])
        (products scenario_rounding)) =
   [(1, 0, Some 0, Some ''Dropped due to budget limit''),
    (2, 2, Some (852165491991511 / 8796093022208), Some ''Kept in final order''),
    (3, 3, Some (3422658750987633 / 137438953472), Some ''Kept in final order'')]"
  by (simp add: BudgetAgent_apply_b64_def price_index_b64_def price_row_b64_def
      get_cost_price_def get_price_def get_line_cost_def drop_row_def keep_row_def
      scenario_rounding_def scenario_defs build_plan_defs sum_b64_def b64_def binade_numeral
      pow2_def Let_def)

lemma scenario_rounding_costs:
  "map get_line_cost
     (BudgetAgent_apply_b64 25000
        (ReplenishmentAgent_build_plan (3 / 2) scenario_rounding [1 \<mapsto> 0, 2 \<mapsto> 1, 3 \<mapsto> 2])
        (products scenario_rounding)) =
   [0, 852165491991511 / 8796093022208, 3422658750987633 / 137438953472]"
  by (simp add: BudgetAgent_apply_b64_def price_index_b64_def price_row_b64_def
      get_cost_price_def get_price_def get_line_cost_def drop_row_def keep_row_def
      scenario_rounding_def scenario_defs build_plan_defs sum_b64_def b64_def binade_numeral
      pow2_def Let_def)

text \<open>
  Claim C1 fails on the code. The pipeline as deployed (four weeks, safety factor 1.5,
  weekly budget 25000.0) plans 35, 2 and 3 units for the three products of
  \<open>scenario_rounding\<close>; all the arithmetic of the forecast and of \<^verbatim>\<open>build_plan\<close> is exact
  there. \<^verbatim>\<open>BudgetAgent.apply\<close> drops the first line and stops, since the rounded excess is
  then 0.0, and returns line costs of 0, 96.88 and 24903.120000000003: their sum as
  Python computes it is 25000.000000000004, and their exact sum is above 25000 as well,
  while the weekly budget is 25000 and not negative.
\<close>

theorem apply_b64_exceeds_budget:
  "ForecastAgent_forecast 4 scenario_rounding = Inr [1 \<mapsto> 0, 2 \<mapsto> 1, 3 \<mapsto> 2] \<and>
   map (\<lambda>l. (pl_product_id l, suggested_order_qty l, line_cost l, budget_note l))
     (BudgetAgent_apply_b64 25000
        (ReplenishmentAgent_build_plan (3 / 2) scenario_rounding [1 \<mapsto> 0, 2 \<mapsto> 1, 3 \<mapsto> 2])
        (products scenario_rounding)) =
   [(1, 0, Some 0, Some ''Dropped due to budget limit''),
    (2, 2, Some (852165491991511 / 8796093022208), Some ''Kept in final order''),
    (3, 3, Some (3422658750987633 / 137438953472), Some ''Kept in final order'')] \<and>
   sum_b64 (map get_line_cost
     (BudgetAgent_apply_b64 25000
        (ReplenishmentAgent_build_plan (3 / 2) scenario_rounding [1 \<mapsto> 0, 2 \<mapsto> 1, 3 \<mapsto> 2])
        (products scenario_rounding))) = 25000 + 1 / 2 ^ 38 \<and>
   25000 < total_cost
     (BudgetAgent_apply_b64 25000
        (ReplenishmentAgent_build_plan (3 / 2) scenario_rounding [1 \<mapsto> 0, 2 \<mapsto> 1, 3 \<mapsto> 2])
        (products scenario_rounding)) \<and>
   (0 :: real) \<le> 25000"
proof -
  have "sum_b64 [0, 852165491991511 / 8796093022208, 3422658750987633 / 137438953472] =
          25000 + 1 / 2 ^ 38"
    by (simp add: sum_b64_def b64_eval)
  moreover have "(25000 :: real) <
      sum_list [0, 852165491991511 / 8796093022208, 3422658750987633 / 137438953472]"
    by simp
  ultimately show ?thesis
    unfolding total_cost_def scenario_rounding_costs
    using scenario_rounding_forecast scenario_rounding_apply by simp
qed

end
